theory Spec2Isabelle
  imports Complex_Main "HOL-Library.Multiset" "HOL-Library.Char_ord" "HOL-Library.List_Lexorder"
begin

section \<open>Values shared by the API and the extraction script\<close>

text \<open>
  A parsed JSON document, as \<^verbatim>\<open>request.get_json\<close> and \<^verbatim>\<open>response.json()\<close> hand it to
  the program. \<open>JObj\<close> holds the items of the parsed dict (keys already unique), and
  \<open>json_get\<close> is \<^verbatim>\<open>d.get(key, default)\<close> on such a dict.
\<close>

datatype json =
    JNull
  | JBool bool
  | JNum real
  | JStr string
  | JArr "json list"
  | JObj "(string \<times> json) list"

text \<open>Python truthiness of a parsed JSON value (\<^verbatim>\<open>if not data\<close>, \<^verbatim>\<open>if not products\<close>).\<close>

fun truthy :: "json \<Rightarrow> bool" where
  "truthy JNull = False"
| "truthy (JBool b) = b"
| "truthy (JNum x) = (x \<noteq> 0)"
| "truthy (JStr s) = (s \<noteq> [])"
| "truthy (JArr xs) = (xs \<noteq> [])"
| "truthy (JObj kvs) = (kvs \<noteq> [])"

definition json_get :: "(string \<times> json) list \<Rightarrow> string \<Rightarrow> json \<Rightarrow> json" where
  "json_get kvs k dflt = (case map_of kvs k of None \<Rightarrow> dflt | Some v \<Rightarrow> v)"

text \<open>
  The Python exceptions the modelled handlers raise or answer with. The text of a
  \<open>ValueError\<close> names what it was raised on: for \<^verbatim>\<open>int\<close>, the string it rejects.
\<close>

datatype py_exn =
    ValueError string
  | KeyError
  | AttributeError
  | TypeError
  | IndexError
  | OverflowError
  | OSError
  | DatabaseError string

section \<open>Token store and auth gate (app.py)\<close>

text \<open>
  A Python float that a sum of a clock reading and an integer can be: a finite number or
  an infinity. \<^verbatim>\<open>time.time()\<close> itself is a finite float, read as a real number.
  \<open>float_gt now expiry\<close> is \<^verbatim>\<open>time.time() > active_tokens[token]\<close>, \<open>float_le\<close> is
  \<open>\<le>\<close> on the same values.
\<close>

datatype pyfloat = Finite real | PosInf | NegInf

fun float_gt :: "real \<Rightarrow> pyfloat \<Rightarrow> bool" where
  "float_gt now (Finite expiry) = (now > expiry)"
| "float_gt now PosInf = False"
| "float_gt now NegInf = True"

fun float_le :: "real \<Rightarrow> pyfloat \<Rightarrow> bool" where
  "float_le now (Finite expiry) = (now \<le> expiry)"
| "float_le now PosInf = True"
| "float_le now NegInf = False"

text \<open>\<^verbatim>\<open>active_tokens = {}\<close>: token string to expiry timestamp.\<close>

type_synonym token_store = "string \<rightharpoonup> pyfloat"

record config =
  API_USERNAME :: string
  API_PASSWORD :: string
  TOKEN_EXPIRY_SECONDS :: int

text \<open>The JSON error bodies of app.py, one constructor per message.\<close>

datatype error_msg =
    HeaderMissingOrMalformed
  | TokenInvalid
  | TokenExpired
  | JsonBodyRequired
  | BadCredentials
  | ProductNotFound string
  | Exception py_exn

datatype 'r body =
    Error error_msg
  | TokenIssued string int string
  | DataPage "'r list" nat int int
  | DataCount "'r list" nat
  | DataOne 'r

type_synonym 'r response = "'r body \<times> nat"

text \<open>\<^verbatim>\<open>s.startswith(p)\<close> and \<^verbatim>\<open>s.split(" ")\<close>.\<close>

fun startswith :: "string \<Rightarrow> string \<Rightarrow> bool" where
  "startswith s [] = True"
| "startswith [] (p # ps) = False"
| "startswith (c # cs) (p # ps) = (c = p \<and> startswith cs ps)"

fun split_on :: "char \<Rightarrow> string \<Rightarrow> string list" where
  "split_on d [] = [[]]"
| "split_on d (c # cs) =
     (if c = d then [] # split_on d cs
      else (case split_on d cs of [] \<Rightarrow> [[c]] | w # ws \<Rightarrow> (c # w) # ws))"

text \<open>
  \<^verbatim>\<open>require_auth(f)\<close>: the decorated handler. It takes the store, the reading of
  \<^verbatim>\<open>time.time()\<close> and the Authorization header (\<open>None\<close> when the request has none, which
  \<^verbatim>\<open>headers.get("Authorization", "")\<close> turns into the empty string), and returns the store
  and the response. \<open>f\<close> is the response of the wrapped handler.
\<close>

definition require_auth ::
  "'r response \<Rightarrow> token_store \<Rightarrow> real \<Rightarrow> string option \<Rightarrow> token_store \<times> 'r response" where
  "require_auth f active_tokens now authorization =
     (let auth_header = (case authorization of None \<Rightarrow> [] | Some h \<Rightarrow> h) in
      if \<not> startswith auth_header ''Bearer '' then
        (active_tokens, (Error HeaderMissingOrMalformed, 401))
      else
        (case split_on CHR '' '' auth_header of
           _ # token # _ \<Rightarrow>
             (case active_tokens token of
                None \<Rightarrow> (active_tokens, (Error TokenInvalid, 401))
              | Some expiry \<Rightarrow>
                  if float_gt now expiry then
                    (active_tokens(token := None), (Error TokenExpired, 401))
                  else (active_tokens, f))
         | _ \<Rightarrow> (active_tokens, (Error (Exception IndexError), 500))))"

text \<open>
  \<^verbatim>\<open>get_token()\<close>. \<open>data\<close> is the result of \<^verbatim>\<open>request.get_json(silent=True)\<close> (\<open>None\<close> for a
  missing or unparsable body), \<open>token\<close> the string \<^verbatim>\<open>secrets.token_urlsafe(32)\<close> returns.
  Two operations of the interpreter are parameters: \<open>float_add\<close> is
  \<^verbatim>\<open>time.time() + TOKEN_EXPIRY_SECONDS\<close>, the float sum of a float and an int, rounded as
  floats are, or the OverflowError of an int too large for a float; \<open>isoformat\<close> is
  \<^verbatim>\<open>datetime.fromtimestamp(expiry).isoformat()\<close>, which raises for a timestamp the platform
  cannot turn into a date. No exception is caught in this function: Flask answers 500.
  The AttributeError of a truthy body that is not a dict (it has no \<^verbatim>\<open>get\<close>) and the
  failure of the sum come before the store is written, the failure of \<open>isoformat\<close> after.
\<close>

definition get_token ::
  "(real \<Rightarrow> int \<Rightarrow> py_exn + pyfloat) \<Rightarrow> (pyfloat \<Rightarrow> py_exn + string) \<Rightarrow> config
     \<Rightarrow> token_store \<Rightarrow> real \<Rightarrow> string \<Rightarrow> json option \<Rightarrow> token_store \<times> 'r response" where
  "get_token float_add isoformat cfg active_tokens now token data =
     (case data of
        None \<Rightarrow> (active_tokens, (Error JsonBodyRequired, 400))
      | Some d \<Rightarrow>
          if \<not> truthy d then (active_tokens, (Error JsonBodyRequired, 400))
          else
            (case d of
               JObj kvs \<Rightarrow>
                 (let username = json_get kvs ''username'' (JStr []);
                      password = json_get kvs ''password'' (JStr [])
                  in if username \<noteq> JStr (API_USERNAME cfg) \<or> password \<noteq> JStr (API_PASSWORD cfg)
                     then (active_tokens, (Error BadCredentials, 401))
                     else
                       (case float_add now (TOKEN_EXPIRY_SECONDS cfg) of
                          Inl e \<Rightarrow> (active_tokens, (Error (Exception e), 500))
                        | Inr expiry \<Rightarrow>
                            (let active_tokens = active_tokens(token \<mapsto> expiry) in
                             case isoformat expiry of
                               Inl e \<Rightarrow> (active_tokens, (Error (Exception e), 500))
                             | Inr expires_at \<Rightarrow>
                                 (active_tokens,
                                  (TokenIssued token (TOKEN_EXPIRY_SECONDS cfg) expires_at, 200)))))
             | _ \<Rightarrow> (active_tokens, (Error (Exception AttributeError), 500))))"

text \<open>The token a header carries: what \<^verbatim>\<open>auth_header.split(" ")[1]\<close> reads.\<close>

definition bearer_token :: "string option \<Rightarrow> string option" where
  "bearer_token authorization =
     (let auth_header = (case authorization of None \<Rightarrow> [] | Some h \<Rightarrow> h) in
      if \<not> startswith auth_header ''Bearer '' then None
      else (case split_on CHR '' '' auth_header of _ # token # _ \<Rightarrow> Some token | _ \<Rightarrow> None))"

text \<open>
  The spec's words for validity: a token is valid iff it is present in the store and the
  current time is at most its expiry.
\<close>

definition spec_token_valid :: "token_store \<Rightarrow> real \<Rightarrow> string \<Rightarrow> bool" where
  "spec_token_valid active_tokens now token =
     (case active_tokens token of None \<Rightarrow> False | Some expiry \<Rightarrow> float_le now expiry)"

text \<open>
  The requests that touch the token store, in the order the server handles them: a call of
  any decorated route (header, time read) or a call of \<^verbatim>\<open>POST /auth/token\<close> (body,
  generated token, time read).
\<close>

datatype event =
    Authenticate "string option" real
  | Issue "json option" string real

fun step ::
  "(real \<Rightarrow> int \<Rightarrow> py_exn + pyfloat) \<Rightarrow> (pyfloat \<Rightarrow> py_exn + string) \<Rightarrow> config
     \<Rightarrow> token_store \<Rightarrow> event \<Rightarrow> token_store" where
  "step float_add isoformat cfg active_tokens (Authenticate authorization now) =
     fst (require_auth (DataCount ([] :: unit list) 0, 200) active_tokens now authorization)"
| "step float_add isoformat cfg active_tokens (Issue data token now) =
     fst (get_token float_add isoformat cfg active_tokens now token data
            :: token_store \<times> unit response)"

fun run ::
  "(real \<Rightarrow> int \<Rightarrow> py_exn + pyfloat) \<Rightarrow> (pyfloat \<Rightarrow> py_exn + string) \<Rightarrow> config
     \<Rightarrow> token_store \<Rightarrow> event list \<Rightarrow> token_store" where
  "run float_add isoformat cfg active_tokens [] = active_tokens"
| "run float_add isoformat cfg active_tokens (ev # evs) =
     run float_add isoformat cfg (step float_add isoformat cfg active_tokens ev) evs"

fun generates :: "string \<Rightarrow> event \<Rightarrow> bool" where
  "generates token (Authenticate authorization now) = False"
| "generates token (Issue data token' now) = (token' = token)"

text \<open>
  Float arithmetic for the examples: IEEE 754 binary64 with round to nearest, ties to
  even. \<open>round_double\<close> rounds a real to 53 significant bits (the exponent bounded below as
  for subnormal numbers); \<open>double_add\<close> converts the int, which fails with OverflowError
  beyond the largest float, and adds, which overflows to an infinity.
\<close>

definition round_half_even :: "real \<Rightarrow> int" where
  "round_half_even x =
     (let f = \<lfloor>x\<rfloor>; d = x - of_int f
      in if d < 1 / 2 then f else if d > 1 / 2 then f + 1 else if even f then f else f + 1)"

definition round_double :: "real \<Rightarrow> real" where
  "round_double x =
     (if x = 0 then 0
      else (let e = max (\<lfloor>log 2 \<bar>x\<bar>\<rfloor> - 52) (- 1074)
            in of_int (round_half_even (x / 2 powr of_int e)) * 2 powr of_int e))"

definition double_of :: "real \<Rightarrow> pyfloat" where
  "double_of x =
     (let r = round_double x
      in if r \<ge> 2 ^ 1024 then PosInf else if r \<le> - (2 ^ 1024) then NegInf else Finite r)"

definition int_to_float :: "int \<Rightarrow> py_exn + real" where
  "int_to_float n =
     (let r = round_double (of_int n)
      in if \<bar>r\<bar> \<ge> 2 ^ 1024 then Inl OverflowError else Inr r)"

definition double_add :: "real \<Rightarrow> int \<Rightarrow> py_exn + pyfloat" where
  "double_add now n =
     (case int_to_float n of Inl e \<Rightarrow> Inl e | Inr x \<Rightarrow> Inr (double_of (now + x)))"

text \<open>
  A date formatter for the examples, as \<^verbatim>\<open>fromtimestamp\<close> behaves on a platform set to UTC
  with a 64-bit \<^verbatim>\<open>time_t\<close>: OverflowError on an infinity or beyond \<^verbatim>\<open>time_t\<close>, ValueError for
  a year outside 1 to 9999; the text it returns otherwise stands for the formatted date.
\<close>

definition isoformat0 :: "pyfloat \<Rightarrow> py_exn + string" where
  "isoformat0 expiry =
     (case expiry of
        Finite x \<Rightarrow>
          if \<bar>x\<bar> \<ge> 2 ^ 63 then Inl OverflowError
          else if - 62135596800 \<le> x \<and> x < 253402300800 then Inr ''date''
          else Inl (ValueError ''year'')
      | _ \<Rightarrow> Inl OverflowError)"

text \<open>A configuration and a credentials body to run the definitions on.\<close>

definition cfg0 :: config where
  "cfg0 = \<lparr>API_USERNAME = ''admin'', API_PASSWORD = ''admin123'', TOKEN_EXPIRY_SECONDS = 3600\<rparr>"

definition creds0 :: json where
  "creds0 = JObj [(''username'', JStr ''admin''), (''password'', JStr ''admin123'')]"


section \<open>Query builder and list handlers (app.py)\<close>

text \<open>
  \<^verbatim>\<open>int(request.args.get(name, default))\<close>: the first value of the query parameter, given
  to \<^verbatim>\<open>int\<close>, or the default when the request has no such parameter. \<^verbatim>\<open>int\<close> on a string is
  the interpreter's; it is the parameter \<open>int_of\<close>, \<open>None\<close> standing for its ValueError.
\<close>

definition int_arg ::
  "(string \<Rightarrow> int option) \<Rightarrow> (string \<rightharpoonup> string) \<Rightarrow> string \<Rightarrow> int \<Rightarrow> py_exn + int" where
  "int_arg int_of args name dflt =
     (case args name of
        None \<Rightarrow> Inr dflt
      | Some s \<Rightarrow> (case int_of s of None \<Rightarrow> Inl (ValueError s) | Some n \<Rightarrow> Inr n))"

text \<open>The values bound to the placeholders of a statement.\<close>

datatype sqlval = SInt int | SStr string

type_synonym params = "string \<rightharpoonup> sqlval"

text \<open>
  \<^verbatim>\<open>if product_type:\<close> and \<^verbatim>\<open>if brand:\<close> on the result of \<^verbatim>\<open>request.args.get(name, None)\<close>:
  Python truthiness, false for \<open>None\<close> and for the empty string.
\<close>

fun filter_present :: "string option \<Rightarrow> bool" where
  "filter_present None = False"
| "filter_present (Some s) = (s \<noteq> [])"

text \<open>The statement text and the parameter dict the Sephora list handler builds.\<close>

definition sephora_select :: string where
  "sephora_select =
     ''\<newline>'' @
     ''            SELECT product_id, product_name, brand_name, product_type,\<newline>'' @
     ''                   price_usd, rating, restricted_ingredient_count, cmr_count,\<newline>'' @
     ''                   has_restricted_ingredient, has_cmr\<newline>'' @
     ''            FROM sephora_products\<newline>'' @
     ''            WHERE 1=1\<newline>'' @
     ''        ''"

definition sephora_products_query ::
  "string option \<Rightarrow> string option \<Rightarrow> int \<Rightarrow> int \<Rightarrow> string \<times> params" where
  "sephora_products_query product_type brand limit offset =
     (let query = sephora_select;
          params = Map.empty;
          (query, params) =
            (case product_type of
               Some t \<Rightarrow>
                 if filter_present product_type
                 then (query @ '' AND product_type = :product_type'',
                       params(''product_type'' \<mapsto> SStr t))
                 else (query, params)
             | None \<Rightarrow> (query, params));
          (query, params) =
            (case brand of
               Some b \<Rightarrow>
                 if filter_present brand
                 then (query @ '' AND brand_name LIKE :brand'',
                       params(''brand'' \<mapsto> SStr (''%'' @ b @ ''%'')))
                 else (query, params)
             | None \<Rightarrow> (query, params));
          query = query @ '' ORDER BY brand_name ASC, product_name ASC LIMIT :limit OFFSET :offset'';
          params = params(''limit'' \<mapsto> SInt limit);
          params = params(''offset'' \<mapsto> SInt offset)
      in (query, params))"

text \<open>
  \<^verbatim>\<open>get_sephora_products()\<close>, the body under the decorator. \<open>int_of\<close> is \<^verbatim>\<open>int\<close> on a
  string, \<open>execute\<close> is the database:
  \<^verbatim>\<open>conn.execute(text(query), params)\<close> with the rows read out, or the exception it raises.
  Every exception raised in the \<^verbatim>\<open>try\<close> block reaches \<^verbatim>\<open>except Exception\<close> and is answered
  500 with its message.
\<close>

definition get_sephora_products ::
  "(string \<Rightarrow> int option) \<Rightarrow> (string \<Rightarrow> params \<Rightarrow> py_exn + 'r list)
     \<Rightarrow> (string \<rightharpoonup> string) \<Rightarrow> 'r response" where
  "get_sephora_products int_of execute args =
     (case int_arg int_of args ''limit'' 50 of
        Inl e \<Rightarrow> (Error (Exception e), 500)
      | Inr limit \<Rightarrow>
          (case int_arg int_of args ''offset'' 0 of
             Inl e \<Rightarrow> (Error (Exception e), 500)
           | Inr offset \<Rightarrow>
               (let product_type = args ''type'';
                    brand = args ''brand'';
                    (query, params) = sephora_products_query product_type brand limit offset
                in case execute query params of
                     Inl e \<Rightarrow> (Error (Exception e), 500)
                   | Inr rows \<Rightarrow> (DataPage rows (length rows) limit offset, 200))))"

text \<open>The same for the Skincare list handler, with its own columns.\<close>

definition skincare_select :: string where
  "skincare_select =
     ''\<newline>'' @
     ''            SELECT brand, product_name, product_type, price, rating,\<newline>'' @
     ''                   restricted_ingredient_count, cmr_count,\<newline>'' @
     ''                   has_restricted_ingredient, has_cmr\<newline>'' @
     ''            FROM skincare_products\<newline>'' @
     ''            WHERE 1=1\<newline>'' @
     ''        ''"

definition skincare_products_query ::
  "string option \<Rightarrow> string option \<Rightarrow> int \<Rightarrow> int \<Rightarrow> string \<times> params" where
  "skincare_products_query product_type brand limit offset =
     (let query = skincare_select;
          params = Map.empty;
          (query, params) =
            (case product_type of
               Some t \<Rightarrow>
                 if filter_present product_type
                 then (query @ '' AND product_type = :product_type'',
                       params(''product_type'' \<mapsto> SStr t))
                 else (query, params)
             | None \<Rightarrow> (query, params));
          (query, params) =
            (case brand of
               Some b \<Rightarrow>
                 if filter_present brand
                 then (query @ '' AND brand LIKE :brand'',
                       params(''brand'' \<mapsto> SStr (''%'' @ b @ ''%'')))
                 else (query, params)
             | None \<Rightarrow> (query, params));
          query = query @ '' ORDER BY brand ASC, product_name ASC LIMIT :limit OFFSET :offset'';
          params = params(''limit'' \<mapsto> SInt limit);
          params = params(''offset'' \<mapsto> SInt offset)
      in (query, params))"

definition get_skincare_products ::
  "(string \<Rightarrow> int option) \<Rightarrow> (string \<Rightarrow> params \<Rightarrow> py_exn + 'r list)
     \<Rightarrow> (string \<rightharpoonup> string) \<Rightarrow> 'r response" where
  "get_skincare_products int_of execute args =
     (case int_arg int_of args ''limit'' 50 of
        Inl e \<Rightarrow> (Error (Exception e), 500)
      | Inr limit \<Rightarrow>
          (case int_arg int_of args ''offset'' 0 of
             Inl e \<Rightarrow> (Error (Exception e), 500)
           | Inr offset \<Rightarrow>
               (let product_type = args ''type'';
                    brand = args ''brand'';
                    (query, params) = skincare_products_query product_type brand limit offset
                in case execute query params of
                     Inl e \<Rightarrow> (Error (Exception e), 500)
                   | Inr rows \<Rightarrow> (DataPage rows (length rows) limit offset, 200))))"

text \<open>The number of places of a text at which a pattern starts.\<close>

fun count_sub :: "string \<Rightarrow> string \<Rightarrow> nat" where
  "count_sub pat [] = (if pat = [] then 1 else 0)"
| "count_sub pat (c # cs) = (if startswith (c # cs) pat then 1 else 0) + count_sub pat cs"

text \<open>A response in the 4xx class.\<close>

definition client_error :: "'r response \<Rightarrow> bool" where
  "client_error r = (400 \<le> snd r \<and> snd r \<le> 499)"

text \<open>A database that holds no rows and never fails.\<close>

definition empty_db :: "string \<Rightarrow> params \<Rightarrow> py_exn + unit list" where
  "empty_db query params = Inr []"

text \<open>
  \<^verbatim>\<open>int\<close> for the examples, on strings whose characters are code points below 256 (Python
  knows further spaces and decimal digits above). Spaces around the number are stripped:
  the code points 9 to 13 and 32, and 133 and 160. One sign is allowed, then decimal
  digits with single underscores only between digits, at most 4300 digits (the default
  limit of the interpreter since 3.11).
\<close>

definition is_space :: "char \<Rightarrow> bool" where
  "is_space c = (let n = (of_char c :: nat) in (9 \<le> n \<and> n \<le> 13) \<or> n = 32 \<or> n = 133 \<or> n = 160)"

definition is_digit :: "char \<Rightarrow> bool" where
  "is_digit c = (let n = (of_char c :: nat) in 48 \<le> n \<and> n \<le> 57)"

definition digit_val :: "char \<Rightarrow> nat" where
  "digit_val c = of_char c - 48"

definition strip :: "string \<Rightarrow> string" where
  "strip s = rev (dropWhile is_space (rev (dropWhile is_space s)))"

fun int_digits :: "nat \<Rightarrow> string \<Rightarrow> nat option"
  and int_rest :: "nat \<Rightarrow> string \<Rightarrow> nat option" where
  "int_digits acc [] = None"
| "int_digits acc (c # cs) =
     (if is_digit c then int_rest (acc * 10 + digit_val c) cs else None)"
| "int_rest acc [] = Some acc"
| "int_rest acc (c # cs) =
     (if c = CHR ''_'' then int_digits acc cs
      else if is_digit c then int_rest (acc * 10 + digit_val c) cs
      else None)"

definition int_magnitude :: "string \<Rightarrow> nat option" where
  "int_magnitude s = (if length (filter is_digit s) > 4300 then None else int_digits 0 s)"

definition py_int :: "string \<Rightarrow> int option" where
  "py_int s =
     (case strip s of
        [] \<Rightarrow> None
      | c # cs \<Rightarrow>
          if c = CHR ''-'' then map_option (\<lambda>n. - int n) (int_magnitude cs)
          else if c = CHR ''+'' then map_option int (int_magnitude cs)
          else map_option int (int_magnitude (c # cs)))"

section \<open>Remote API fetcher and save routine of the extraction script\<close>

text \<open>
  The exception classes that the fetcher names in its \<^verbatim>\<open>except\<close> clauses or raises itself.
  An exception is given by the set of those classes it is an instance of: a read timeout
  of requests is a \<open>CTimeout\<close> and a \<open>CRequestException\<close>; the JSONDecodeError of a recent
  requests is a \<open>CRequestException\<close> and a \<open>CValueError\<close>, that of the json module a
  \<open>CValueError\<close> only.
\<close>

datatype exn_class =
    CTimeout
  | CHTTPError
  | CRequestException
  | CValueError
  | CKeyError
  | CAttributeError
  | CTypeError

text \<open>
  What one pass through the \<^verbatim>\<open>try\<close> block gets from the network for a page: the exception
  that \<^verbatim>\<open>requests.get\<close>, \<^verbatim>\<open>raise_for_status\<close> or \<^verbatim>\<open>response.json()\<close> raises, or the
  parsed body.
\<close>

datatype page_outcome = Raises "exn_class set" | Body json

text \<open>How a block ends: normally, at the \<^verbatim>\<open>break\<close>, or with an exception.\<close>

datatype ctl = Normal | Break | Raised "exn_class set"

text \<open>
  What the \<^verbatim>\<open>except\<close> clauses do with an exception: they are tried in the order written,
  and the first whose class the exception is an instance of is run.
\<close>

datatype handling = Continue | Abort | Propagate

definition except_clause :: "exn_class set \<Rightarrow> handling" where
  "except_clause e =
     (if CTimeout \<in> e then Continue
      else if CHTTPError \<in> e then Continue
      else if CRequestException \<in> e then Abort
      else if CValueError \<in> e \<or> CKeyError \<in> e then Continue
      else Propagate)"

text \<open>The dict appended for one product.\<close>

definition normalize :: "(string \<times> json) list \<Rightarrow> (string \<times> json) list" where
  "normalize product =
     [(''product_name'', json_get product ''product_name'' (JStr [])),
      (''brand'', json_get product ''brands'' (JStr [])),
      (''ingredients_text'', json_get product ''ingredients_text'' (JStr [])),
      (''categories'', json_get product ''categories'' (JStr [])),
      (''country'', json_get product ''countries'' (JStr [])),
      (''barcode'', json_get product ''code'' (JStr [])),
      (''source'', JStr ''open_beauty_facts_api'')]"

text \<open>
  \<^verbatim>\<open>for product in products: all_products.append({...})\<close>. An element that is not a dict has
  no \<^verbatim>\<open>get\<close>; a truthy \<^verbatim>\<open>products\<close> that is a string or a dict iterates over strings, which
  have none either; a number or \<^verbatim>\<open>True\<close> is not iterable.
\<close>

fun append_list :: "json list \<Rightarrow> (string \<times> json) list list \<Rightarrow> (string \<times> json) list list \<times> ctl" where
  "append_list [] all_products = (all_products, Normal)"
| "append_list (JObj product # products) all_products =
     append_list products (all_products @ [normalize product])"
| "append_list (p # products) all_products = (all_products, Raised {CAttributeError})"

fun append_products :: "json \<Rightarrow> (string \<times> json) list list \<Rightarrow> (string \<times> json) list list \<times> ctl" where
  "append_products (JArr products) all_products = append_list products all_products"
| "append_products (JStr s) all_products = (all_products, Raised {CAttributeError})"
| "append_products (JObj kvs) all_products = (all_products, Raised {CAttributeError})"
| "append_products p all_products = (all_products, Raised {CTypeError})"

text \<open>The \<^verbatim>\<open>try\<close> block of one page.\<close>

definition try_page ::
  "page_outcome \<Rightarrow> (string \<times> json) list list \<Rightarrow> (string \<times> json) list list \<times> ctl" where
  "try_page outcome all_products =
     (case outcome of
        Raises e \<Rightarrow> (all_products, Raised e)
      | Body data \<Rightarrow>
          (case data of
             JObj kvs \<Rightarrow>
               (let products = json_get kvs ''products'' (JArr []) in
                if \<not> truthy products then (all_products, Break)
                else append_products products all_products)
           | _ \<Rightarrow> (all_products, Raised {CAttributeError})))"

text \<open>
  \<^verbatim>\<open>for page in range(1, max_pages + 1)\<close>, over the pages still to visit. \<open>request\<close> gives the
  outcome of the request for a page. \<open>Inl\<close> is an exception that leaves the function.
\<close>

fun fetch_pages ::
  "(int \<Rightarrow> page_outcome) \<Rightarrow> int list \<Rightarrow> (string \<times> json) list list
     \<Rightarrow> exn_class set + (string \<times> json) list list" where
  "fetch_pages request [] all_products = Inr all_products"
| "fetch_pages request (page # pages) all_products =
     (case try_page (request page) all_products of
        (all_products', Normal) \<Rightarrow> fetch_pages request pages all_products'
      | (all_products', Break) \<Rightarrow> Inr all_products'
      | (all_products', Raised e) \<Rightarrow>
          (case except_clause e of
             Continue \<Rightarrow> fetch_pages request pages all_products'
           | Abort \<Rightarrow> Inr all_products'
           | Propagate \<Rightarrow> Inl e))"

text \<open>
  A table as the program sees it: its column labels, the number of its rows (\<^verbatim>\<open>len(df)\<close>)
  and its cells as pandas holds them. \<^verbatim>\<open>pd.DataFrame(records)\<close> of a list of dicts takes
  the keys, in the order first seen, as columns and one row per dict; how pandas turns
  the values of a column into cells is the parameter \<open>cells\<close>. \<^verbatim>\<open>df.empty\<close> holds when
  either axis has length 0.
\<close>

record 'v dataframe =
  df_columns :: "string list"
  df_len :: nat
  df_cells :: 'v

definition DataFrame ::
  "((string \<times> json) list list \<Rightarrow> 'v) \<Rightarrow> (string \<times> json) list list \<Rightarrow> 'v dataframe" where
  "DataFrame cells records =
     \<lparr>df_columns = rev (remdups (rev (concat (map (map fst) records)))),
      df_len = length records,
      df_cells = cells records\<rparr>"

definition df_empty :: "'v dataframe \<Rightarrow> bool" where
  "df_empty df = (df_columns df = [] \<or> df_len df = 0)"

definition extract_from_api ::
  "((string \<times> json) list list \<Rightarrow> 'v) \<Rightarrow> (int \<Rightarrow> page_outcome) \<Rightarrow> int
     \<Rightarrow> exn_class set + 'v dataframe" where
  "extract_from_api cells request max_pages =
     (case fetch_pages request [1..max_pages] [] of
        Inl e \<Rightarrow> Inl e
      | Inr all_products \<Rightarrow> Inr (DataFrame cells all_products))"

text \<open>
  The amended claim's words, page by page. A page stops the pagination when it returns no
  products or fails with a connection failure: a RequestException that is neither a
  timeout nor an HTTP error, nor a ValueError or KeyError. It is skipped when it times out
  or fails with an HTTP error, or with a ValueError or KeyError that is not a
  RequestException. Otherwise a body as the remote API sends it, an object whose
  \<^verbatim>\<open>products\<close> is a list of objects, contributes the records of its products.
\<close>

fun is_obj :: "json \<Rightarrow> bool" where
  "is_obj (JObj kvs) = True"
| "is_obj j = False"

fun spec_stops :: "page_outcome \<Rightarrow> bool" where
  "spec_stops (Raises e) =
     (CRequestException \<in> e \<and> CTimeout \<notin> e \<and> CHTTPError \<notin> e
      \<and> CValueError \<notin> e \<and> CKeyError \<notin> e)"
| "spec_stops (Body (JObj kvs)) = (\<not> truthy (json_get kvs ''products'' (JArr [])))"
| "spec_stops (Body d) = False"

fun spec_skipped :: "page_outcome \<Rightarrow> bool" where
  "spec_skipped (Raises e) =
     (CTimeout \<in> e \<or> CHTTPError \<in> e
      \<or> ((CValueError \<in> e \<or> CKeyError \<in> e) \<and> CRequestException \<notin> e))"
| "spec_skipped (Body d) = False"

fun spec_records :: "page_outcome \<Rightarrow> (string \<times> json) list list" where
  "spec_records (Raises e) = []"
| "spec_records (Body (JObj kvs)) =
     (case json_get kvs ''products'' (JArr []) of
        JArr products \<Rightarrow> concat (map (\<lambda>p. case p of JObj product \<Rightarrow> [normalize product] | _ \<Rightarrow> []) products)
      | _ \<Rightarrow> [])"
| "spec_records (Body d) = []"

fun spec_contributes :: "page_outcome \<Rightarrow> bool" where
  "spec_contributes (Raises e) = False"
| "spec_contributes (Body (JObj kvs)) =
     (case json_get kvs ''products'' (JArr []) of
        JArr products \<Rightarrow> products \<noteq> [] \<and> list_all is_obj products
      | _ \<Rightarrow> False)"
| "spec_contributes (Body d) = False"

definition spec_regular :: "page_outcome \<Rightarrow> bool" where
  "spec_regular outcome = (spec_stops outcome \<or> spec_skipped outcome \<or> spec_contributes outcome)"

text \<open>
  The outcomes at which an exception leaves the function: an exception of none of the
  classes named in the \<^verbatim>\<open>except\<close> clauses, a body that is not an object, truthy
  \<^verbatim>\<open>products\<close> that are not a list, or a list with an element that is not an object.
\<close>

fun spec_raises :: "page_outcome \<Rightarrow> exn_class set option" where
  "spec_raises (Raises e) =
     (if CTimeout \<notin> e \<and> CHTTPError \<notin> e \<and> CRequestException \<notin> e
         \<and> CValueError \<notin> e \<and> CKeyError \<notin> e
      then Some e else None)"
| "spec_raises (Body (JObj kvs)) =
     (case json_get kvs ''products'' (JArr []) of
        JArr products \<Rightarrow> if list_all is_obj products then None else Some {CAttributeError}
      | JStr s \<Rightarrow> if s = [] then None else Some {CAttributeError}
      | JObj ps \<Rightarrow> if ps = [] then None else Some {CAttributeError}
      | p \<Rightarrow> if truthy p then Some {CTypeError} else None)"
| "spec_raises (Body d) = Some {CAttributeError}"

text \<open>The pages the loop reaches: those before the first stopping page, and that page.\<close>

fun visited :: "(int \<Rightarrow> page_outcome) \<Rightarrow> int list \<Rightarrow> int list" where
  "visited request [] = []"
| "visited request (page # pages) =
     (if spec_stops (request page) then [page] else page # visited request pages)"

text \<open>
  \<^verbatim>\<open>save_raw(name, df)\<close>, as the list of its effects. \<open>timestamp\<close> is the clock reading as
  \<^verbatim>\<open>strftime("%Y%m%d_%H%M%S")\<close> prints it. \<open>path_join\<close> is the \<^verbatim>\<open>/\<close> of pathlib on a directory
  and a file name: an absolute right-hand side replaces the left.
\<close>

datatype log_msg = EmptyNotSaved string | Saved string nat

datatype 'v effect = Warning log_msg | Info log_msg | ToCsv string "'v dataframe"

definition path_join :: "string \<Rightarrow> string \<Rightarrow> string" where
  "path_join dir name = (if startswith name ''/'' then name else dir @ ''/'' @ name)"

definition save_raw :: "string \<Rightarrow> string \<Rightarrow> string \<Rightarrow> 'v dataframe \<Rightarrow> 'v effect list" where
  "save_raw RAW_DIR timestamp name df =
     (if df_empty df then [Warning (EmptyNotSaved name)]
      else
        (let filepath = path_join RAW_DIR (name @ ''_'' @ timestamp @ ''.csv'') in
         [ToCsv filepath df, Info (Saved filepath (df_len df))]))"

fun is_write :: "'v effect \<Rightarrow> bool" where
  "is_write (ToCsv filepath df) = True"
| "is_write e = False"

text \<open>
  Pages to run the fetcher on. \<open>request0\<close>: one product, a read timeout, an HTTP error, a
  ValueError of the json module, one product, a page without products, one product.
  \<open>request_down\<close>: one product, then a connection failure. \<open>request_list\<close>: one product,
  then a body that is a list. \<open>request_garbled\<close>: one product, then a body that the
  requests library cannot parse, then one product. The examples leave the cells out.
\<close>

definition soap_page :: page_outcome where
  "soap_page = Body (JObj [(''products'', JArr [JObj [(''product_name'', JStr ''soap'')]])])"

definition request0 :: "int \<Rightarrow> page_outcome" where
  "request0 page =
     (if page = 2 then Raises {CTimeout, CRequestException}
      else if page = 3 then Raises {CHTTPError, CRequestException}
      else if page = 4 then Raises {CValueError}
      else if page = 6 then Body (JObj [(''products'', JArr [])])
      else soap_page)"

definition request_down :: "int \<Rightarrow> page_outcome" where
  "request_down page = (if page = 2 then Raises {CRequestException} else soap_page)"

definition request_list :: "int \<Rightarrow> page_outcome" where
  "request_list page = (if page = 2 then Body (JArr []) else soap_page)"

definition request_garbled :: "int \<Rightarrow> page_outcome" where
  "request_garbled page =
     (if page = 2 then Raises {CRequestException, CValueError} else soap_page)"

definition no_cells :: "(string \<times> json) list list \<Rightarrow> unit" where
  "no_cells records = ()"

section \<open>What the database answers to the list statement (app.py)\<close>












section \<open>The comparison statement (app.py)\<close>















section \<open>The auth gate: proofs\<close>

subsection \<open>Reading the header, issuing, float arithmetic\<close>

lemma split_on_nosep: "d \<notin> set s \<Longrightarrow> split_on d s = [s]"
  by (induction s) auto

lemma split_on_ne: "split_on d s \<noteq> []"
  by (induction s) (auto split: list.splits)

lemma startswith_append: "startswith s p \<Longrightarrow> \<exists>r. s = p @ r"
  by (induction s p rule: startswith.induct) auto

lemma split_on_Bearer:
  "split_on CHR '' '' (''Bearer '' @ r) = ''Bearer'' # split_on CHR '' '' r"
  by (simp split: list.splits add: split_on_ne)

lemma split_on_header:
  assumes "startswith s ''Bearer ''"
  shows "\<exists>token rest. split_on CHR '' '' s = ''Bearer'' # token # rest"
proof -
  from assms obtain r where s: "s = ''Bearer '' @ r"
    using startswith_append by blast
  obtain token rest where "split_on CHR '' '' r = token # rest"
    using split_on_ne by (cases "split_on CHR '' '' r") auto
  with s show ?thesis
    using split_on_Bearer by simp
qed

lemma bearer_token_None:
  "bearer_token h = None \<longleftrightarrow> \<not> startswith (case h of None \<Rightarrow> [] | Some x \<Rightarrow> x) ''Bearer ''"
  using split_on_header [of "case h of None \<Rightarrow> [] | Some x \<Rightarrow> x"]
  by (auto simp: bearer_token_def Let_def)

lemma bearer_token_Bearer:
  "CHR '' '' \<notin> set token \<Longrightarrow> bearer_token (Some (''Bearer '' @ token)) = Some token"
  by (simp add: bearer_token_def split_on_nosep)

lemma require_auth_None:
  "bearer_token h = None \<Longrightarrow>
   require_auth f st now h = (st, (Error HeaderMissingOrMalformed, 401))"
  by (simp add: bearer_token_None require_auth_def Let_def)

lemma float_gt_iff: "float_gt now expiry \<longleftrightarrow> \<not> float_le now expiry"
  by (cases expiry) auto

lemma require_auth_Some:
  assumes "bearer_token h = Some token"
  shows "require_auth f st now h =
     (case st token of
        None \<Rightarrow> (st, (Error TokenInvalid, 401))
      | Some expiry \<Rightarrow>
          if float_gt now expiry then (st(token := None), (Error TokenExpired, 401))
          else (st, f))"
proof -
  let ?s = "case h of None \<Rightarrow> [] | Some x \<Rightarrow> x"
  from assms have sw: "startswith ?s ''Bearer ''"
    using bearer_token_None [of h] by simp
  then obtain t rest where sp: "split_on CHR '' '' ?s = ''Bearer'' # t # rest"
    using split_on_header by blast
  with sw assms have "t = token"
    by (simp add: bearer_token_def Let_def)
  with sw sp show ?thesis
    by (simp add: require_auth_def Let_def)
qed

lemma get_token_cases:
  "get_token float_add isoformat cfg st now token data =
     (if data = None \<or> (\<exists>d. data = Some d \<and> \<not> truthy d)
        then (st, (Error JsonBodyRequired, 400))
      else if \<forall>kvs. data \<noteq> Some (JObj kvs)
        then (st, (Error (Exception AttributeError), 500))
      else if \<exists>kvs. data = Some (JObj kvs)
            \<and> (json_get kvs ''username'' (JStr []) \<noteq> JStr (API_USERNAME cfg)
                \<or> json_get kvs ''password'' (JStr []) \<noteq> JStr (API_PASSWORD cfg))
        then (st, (Error BadCredentials, 401))
      else (case float_add now (TOKEN_EXPIRY_SECONDS cfg) of
              Inl e \<Rightarrow> (st, (Error (Exception e), 500))
            | Inr expiry \<Rightarrow>
                (case isoformat expiry of
                   Inl e \<Rightarrow> (st(token \<mapsto> expiry), (Error (Exception e), 500))
                 | Inr expires_at \<Rightarrow>
                     (st(token \<mapsto> expiry),
                      (TokenIssued token (TOKEN_EXPIRY_SECONDS cfg) expires_at, 200)))))"
  by (cases data; simp add: get_token_def Let_def split: json.splits sum.splits)

lemma step_other:
  "\<not> generates token ev \<Longrightarrow> st token = None \<Longrightarrow> step float_add isoformat cfg st ev token = None"
proof (cases ev)
  case (Authenticate h now)
  assume "st token = None"
  then show ?thesis
    unfolding Authenticate
    by (cases "bearer_token h")
       (auto simp: require_auth_None require_auth_Some split: option.splits)
next
  case (Issue data token' now)
  assume "\<not> generates token ev" "st token = None"
  then show ?thesis
    unfolding Issue
    by (auto simp: get_token_cases split: sum.splits)
qed

lemma run_other:
  "\<forall>ev \<in> set evs. \<not> generates token ev \<Longrightarrow> st token = None
   \<Longrightarrow> run float_add isoformat cfg st evs token = None"
  by (induction evs arbitrary: st) (auto simp: step_other)

lemma require_auth_issued:
  assumes "CHR '' '' \<notin> set token"
  shows "require_auth g (st0(token \<mapsto> e)) t (Some (''Bearer '' @ token)) =
     (if float_le t e then (st0(token \<mapsto> e), g)
      else ((st0(token \<mapsto> e))(token := None), (Error TokenExpired, 401)))"
  by (subst require_auth_Some [OF bearer_token_Bearer [OF assms]]) (auto simp: float_gt_iff)

lemma floor_log2: "0 < x \<Longrightarrow> 2 ^ k \<le> x \<Longrightarrow> x < 2 ^ (Suc k) \<Longrightarrow> \<lfloor>log 2 x\<rfloor> = int k"
  by (subst floor_log_eq_powr_iff) (simp_all add: powr_realpow powr_add)

lemma round_double_3600: "round_double 3600 = 3600"
proof -
  have "\<lfloor>log 2 (3600::real)\<rfloor> = int 11"
    by (rule floor_log2) simp_all
  then show ?thesis
    by (simp add: round_double_def round_half_even_def powr_minus Let_def)
qed

lemma round_double_4600: "round_double 4600 = 4600"
proof -
  have "\<lfloor>log 2 (4600::real)\<rfloor> = int 12"
    by (rule floor_log2) simp_all
  then show ?thesis
    by (simp add: round_double_def round_half_even_def powr_minus Let_def)
qed

lemma round_double_tie:
  "round_double (9007214350041091 / 4194304) = 9007214350041092 / 4194304"
proof -
  have "\<lfloor>log 2 (9007214350041091 / 4194304 :: real)\<rfloor> = int 31"
    by (rule floor_log2) simp_all
  then show ?thesis
    by (simp add: round_double_def round_half_even_def powr_minus Let_def)
qed

lemma double_add_1000: "double_add 1000 3600 = Inr (Finite 4600)"
  by (simp add: double_add_def int_to_float_def double_of_def round_double_3600 round_double_4600)

lemma double_add_tie:
  "double_add (9007199250546691 / 4194304) 3600 = Inr (Finite (9007214350041092 / 4194304))"
proof -
  have "(9007199250546691 / 4194304 + 3600 :: real) = 9007214350041091 / 4194304"
    by simp
  then show ?thesis
    by (simp add: double_add_def int_to_float_def double_of_def round_double_3600 round_double_tie)
qed

text \<open>
  Claim C1, amended. The decorated handler runs (its response \<open>f\<close> comes back, the store
  untouched) exactly when the token read from the header is in the store and the time read
  is at most its stored expiry; every other request gets a 401 of the matching kind. A
  token that \<^verbatim>\<open>get_token\<close> has just issued at time \<open>t0\<close> has as stored expiry the float sum
  of \<open>t0\<close> and \<^verbatim>\<open>TOKEN_EXPIRY_SECONDS\<close>; it is accepted at every time up to that stored
  expiry and rejected as expired at every later time. The generated token has no space in
  it (\<^verbatim>\<open>token_urlsafe\<close> yields URL-safe base64 text).
\<close>

theorem authenticate_iff_stored_expiry:
  "require_auth (f :: 'a response) st now h =
     (case bearer_token h of
        None \<Rightarrow> (st, (Error HeaderMissingOrMalformed, 401))
      | Some token \<Rightarrow>
          if spec_token_valid st now token then (st, f)
          else if st token = None then (st, (Error TokenInvalid, 401))
          else (st(token := None), (Error TokenExpired, 401)))
   \<and> (get_token float_add isoformat cfg st0 t0 token data
          = (st', (TokenIssued token' ttl expires_at, 200))
        \<and> CHR '' '' \<notin> set token \<longrightarrow>
      token' = token \<and> ttl = TOKEN_EXPIRY_SECONDS cfg \<and>
      (\<exists>expiry. float_add t0 ttl = Inr expiry \<and> st' token = Some expiry \<and>
         (\<forall>(g :: 'c response) t. require_auth g st' t (Some (''Bearer '' @ token)) =
            (if float_le t expiry then (st', g)
             else (st'(token := None), (Error TokenExpired, 401))))))"
proof (intro conjI impI)
  show "require_auth f st now h =
     (case bearer_token h of
        None \<Rightarrow> (st, (Error HeaderMissingOrMalformed, 401))
      | Some token \<Rightarrow>
          if spec_token_valid st now token then (st, f)
          else if st token = None then (st, (Error TokenInvalid, 401))
          else (st(token := None), (Error TokenExpired, 401)))"
    by (cases "bearer_token h")
       (auto simp: require_auth_None require_auth_Some spec_token_valid_def float_gt_iff
          split: option.splits)
next
  assume a: "get_token float_add isoformat cfg st0 t0 token data
          = (st', (TokenIssued token' ttl expires_at, 200))
        \<and> CHR '' '' \<notin> set token"
  then obtain expiry where iss: "token' = token" "ttl = TOKEN_EXPIRY_SECONDS cfg"
      "float_add t0 ttl = Inr expiry" "st' = st0(token \<mapsto> expiry)"
    by (auto simp: get_token_cases split: if_splits sum.splits)
  from iss show "token' = token" "ttl = TOKEN_EXPIRY_SECONDS cfg"
    by simp_all
  show "\<exists>expiry. float_add t0 ttl = Inr expiry \<and> st' token = Some expiry \<and>
         (\<forall>(g :: 'c response) t. require_auth g st' t (Some (''Bearer '' @ token)) =
            (if float_le t expiry then (st', g)
             else (st'(token := None), (Error TokenExpired, 401))))"
  proof (intro exI [of _ expiry] conjI)
    show "float_add t0 ttl = Inr expiry" by (rule iss(3))
    show "st' token = Some expiry" by (simp add: iss(4))
    from a show "\<forall>(g :: 'c response) t. require_auth g st' t (Some (''Bearer '' @ token)) =
            (if float_le t expiry then (st', g)
             else (st'(token := None), (Error TokenExpired, 401)))"
      unfolding iss(4) by (intro allI require_auth_issued) simp
  qed
qed

lemma get_token_1000:
  "get_token double_add isoformat0 cfg0 Map.empty 1000 ''tok'' (Some creds0)
     = ([''tok'' \<mapsto> Finite 4600], (TokenIssued ''tok'' 3600 ''date'' :: unit body, 200))"
  by (simp add: get_token_def cfg0_def creds0_def json_get_def double_add_1000 isoformat0_def)

theorem authenticate_iff_stored_expiry_witness:
  "get_token double_add isoformat0 cfg0 Map.empty 1000 ''tok'' (Some creds0)
     = ([''tok'' \<mapsto> Finite 4600], (TokenIssued ''tok'' 3600 ''date'' :: unit body, 200))
   \<and> CHR '' '' \<notin> set ''tok''
   \<and> double_add 1000 3600 = Inr (Finite 4600)
   \<and> require_auth (DataCount [()] 1, 200) [''tok'' \<mapsto> Finite 4600] 4600 (Some ''Bearer tok'')
       = ([''tok'' \<mapsto> Finite 4600], (DataCount [()] 1, 200))
   \<and> require_auth (DataCount [()] 1, 200) [''tok'' \<mapsto> Finite 4600] 4601 (Some ''Bearer tok'')
       = (Map.empty, (Error TokenExpired, 401))"
proof -
  have n: "CHR '' '' \<notin> set ''tok''" by simp
  note th = authenticate_iff_stored_expiry [where ?'c = unit and float_add = double_add
      and isoformat = isoformat0 and cfg = cfg0 and ?st0.0 = Map.empty and ?t0.0 = 1000
      and token = "''tok''" and data = "Some creds0" and st' = "[''tok'' \<mapsto> Finite 4600]"
      and token' = "''tok''" and ttl = 3600 and expires_at = "''date''",
      THEN conjunct2, rule_format, OF conjI, OF get_token_1000 n]
  then obtain expiry where e: "double_add 1000 3600 = Inr expiry"
    and r: "\<And>(g :: unit response) t.
            require_auth g [''tok'' \<mapsto> Finite 4600] t (Some (''Bearer '' @ ''tok'')) =
            (if float_le t expiry then ([''tok'' \<mapsto> Finite 4600], g)
             else ([''tok'' \<mapsto> Finite 4600](''tok'' := None), (Error TokenExpired, 401)))"
    by blast
  from e have x: "expiry = Finite 4600"
    by (simp add: double_add_1000)
  show ?thesis
    using get_token_1000 n double_add_1000
      r [of "(DataCount [()] 1, 200)" 4600] r [of "(DataCount [()] 1, 200)" 4601]
    by (simp add: x)
qed

text \<open>
  Claim C1 says the token is rejected strictly after issuance time plus TTL. The stored
  expiry is the rounded float sum, which can lie above the exact sum: issued at the float
  \<open>9007199250546691 / 2^22\<close> with a TTL of 3600 seconds, the sum is a tie between two
  floats and is rounded up, and the token is still accepted at that later instant.
\<close>

theorem rejects_strictly_after_ttl_counterexample:
  "get_token double_add isoformat0 cfg0 Map.empty (9007199250546691 / 4194304) ''tok'' (Some creds0)
     = ([''tok'' \<mapsto> Finite (9007214350041092 / 4194304)],
        (TokenIssued ''tok'' 3600 ''date'' :: unit body, 200))
   \<and> (9007214350041092 / 4194304 :: real) > 9007199250546691 / 4194304 + 3600
   \<and> require_auth (DataCount [()] 1, 200) [''tok'' \<mapsto> Finite (9007214350041092 / 4194304)]
        (9007214350041092 / 4194304) (Some ''Bearer tok'')
       = ([''tok'' \<mapsto> Finite (9007214350041092 / 4194304)], (DataCount [()] 1, 200))"
  by (simp add: get_token_def cfg0_def creds0_def json_get_def double_add_tie isoformat0_def
      require_auth_def)

text \<open>
  Claim C2, amended. The first use of an expired token is answered 401 with the expired
  message and evicts the entry. After that, whatever requests the server handles in between
  (calls of decorated routes with any header at any time, calls of \<^verbatim>\<open>POST /auth/token\<close> that
  do not generate the same string again), every use of the token at any time read is
  answered 401 and never accepted; its kind is then the unknown-token message, not the
  expired one: eviction leaves no entry to tell an expired token from one never issued.
\<close>

theorem evicted_token_never_accepted:
  assumes "bearer_token h = Some token" and "st token = Some expiry" and "float_gt now expiry"
  shows "require_auth f st now h = (st(token := None), (Error TokenExpired, 401))
    \<and> (\<forall>evs h' now' f'.
          (\<forall>ev \<in> set evs. \<not> generates token ev) \<and> bearer_token h' = Some token \<longrightarrow>
          require_auth f' (run float_add isoformat cfg (st(token := None)) evs) now' h'
            = (run float_add isoformat cfg (st(token := None)) evs, (Error TokenInvalid, 401)))"
proof (intro conjI allI impI)
  show "require_auth f st now h = (st(token := None), (Error TokenExpired, 401))"
    using assms by (simp add: require_auth_Some)
next
  fix evs h' now' and f' :: "'b response"
  assume a: "(\<forall>ev \<in> set evs. \<not> generates token ev) \<and> bearer_token h' = Some token"
  then have "run float_add isoformat cfg (st(token := None)) evs token = None"
    by (intro run_other) simp_all
  with a show "require_auth f' (run float_add isoformat cfg (st(token := None)) evs) now' h'
            = (run float_add isoformat cfg (st(token := None)) evs, (Error TokenInvalid, 401))"
    by (simp add: require_auth_Some)
qed

theorem evicted_token_never_accepted_witness:
  "bearer_token (Some ''Bearer tok'') = Some ''tok''
   \<and> [''tok'' \<mapsto> Finite 4600] ''tok'' = Some (Finite 4600) \<and> float_gt 4601 (Finite 4600)
   \<and> require_auth (DataCount [()] 1, 200) [''tok'' \<mapsto> Finite 4600] 4601 (Some ''Bearer tok'')
       = (Map.empty, (Error TokenExpired, 401))
   \<and> run double_add isoformat0 cfg0 Map.empty
        [Issue (Some creds0) ''other'' 1000, Authenticate (Some ''Bearer other'') 4603]
       = Map.empty
   \<and> require_auth (DataCount [()] 1, 200) Map.empty 4601 (Some ''Bearer tok'')
       = (Map.empty, (Error TokenInvalid, 401))"
proof -
  have b: "bearer_token (Some ''Bearer tok'') = Some ''tok''"
    by (simp add: bearer_token_def)
  have s: "[''tok'' \<mapsto> Finite 4600] ''tok'' = Some (Finite 4600)" by simp
  have t: "float_gt 4601 (Finite 4600)" by simp
  have r: "run double_add isoformat0 cfg0 Map.empty
        [Issue (Some creds0) ''other'' 1000, Authenticate (Some ''Bearer other'') 4603]
       = Map.empty"
    by (simp add: get_token_def require_auth_def cfg0_def creds0_def json_get_def
        double_add_1000 isoformat0_def)
  have e: "\<forall>ev \<in> set [Issue (Some creds0) ''other'' 1000, Authenticate (Some ''Bearer other'') 4603].
             \<not> generates ''tok'' ev"
    by simp
  note th = evicted_token_never_accepted [where h = "Some ''Bearer tok''" and token = "''tok''"
      and st = "[''tok'' \<mapsto> Finite 4600]" and expiry = "Finite 4600" and now = 4601
      and cfg = cfg0 and float_add = double_add and isoformat = isoformat0, OF b s t]
  note th2 = th [THEN conjunct2, rule_format, OF conjI, OF e b]
  show ?thesis
    using b r th [THEN conjunct1, of "(DataCount [()] 1, 200)"]
      th2 [of "(DataCount [()] 1, 200)" 4601]
    by simp
qed

text \<open>
  Claim C2 says the later uses are not told apart from the first as unknown against
  expired. They are: the same header at the same time read is answered with the expired
  message first and with the unknown-token message next.
\<close>

theorem expired_then_unknown_counterexample:
  "require_auth (DataCount [()] 1, 200) [''tok'' \<mapsto> Finite 4600] 4601 (Some ''Bearer tok'')
     = (Map.empty, (Error TokenExpired, 401))
   \<and> require_auth (DataCount [()] 1, 200) Map.empty 4601 (Some ''Bearer tok'')
     = (Map.empty, (Error TokenInvalid, 401))
   \<and> (Error TokenExpired :: unit body) \<noteq> Error TokenInvalid"
  by (simp add: require_auth_def)





section \<open>The query builder: proofs\<close>

lemma sephora_query_fst:
  "fst (sephora_products_query product_type brand limit offset) =
     sephora_select
     @ (if filter_present product_type then '' AND product_type = :product_type'' else [])
     @ (if filter_present brand then '' AND brand_name LIKE :brand'' else [])
     @ '' ORDER BY brand_name ASC, product_name ASC LIMIT :limit OFFSET :offset''"
  by (cases product_type; cases brand) (simp_all add: sephora_products_query_def)

lemma sephora_query_snd:
  "snd (sephora_products_query product_type brand limit offset) =
     (((if filter_present product_type
        then Map.empty(''product_type'' := map_option SStr product_type) else Map.empty)
       ++ (if filter_present brand
        then Map.empty(''brand'' := map_option (\<lambda>b. SStr (''%'' @ b @ ''%'')) brand)
        else Map.empty))
      (''limit'' \<mapsto> SInt limit, ''offset'' \<mapsto> SInt offset))"
  by (cases product_type; cases brand) (simp_all add: sephora_products_query_def)

lemma sephora_count_where:
  "count_sub ''WHERE 1=1'' (sephora_select
     @ (if p then '' AND product_type = :product_type'' else [])
     @ (if b then '' AND brand_name LIKE :brand'' else [])
     @ '' ORDER BY brand_name ASC, product_name ASC LIMIT :limit OFFSET :offset'') = 1"
  by (cases p; cases b) (simp_all add: sephora_select_def)

lemma sephora_count_and:
  "count_sub '' AND '' (sephora_select
     @ (if p then '' AND product_type = :product_type'' else [])
     @ (if b then '' AND brand_name LIKE :brand'' else [])
     @ '' ORDER BY brand_name ASC, product_name ASC LIMIT :limit OFFSET :offset'') = (if p then 1 else 0) + (if b then 1 else 0)"
  by (cases p; cases b) (simp_all add: sephora_select_def)

lemma sephora_count_type:
  "count_sub '' AND product_type = :product_type'' (sephora_select
     @ (if p then '' AND product_type = :product_type'' else [])
     @ (if b then '' AND brand_name LIKE :brand'' else [])
     @ '' ORDER BY brand_name ASC, product_name ASC LIMIT :limit OFFSET :offset'') = (if p then 1 else 0)"
  by (cases p; cases b) (simp_all add: sephora_select_def)

lemma sephora_count_brand:
  "count_sub '' AND brand_name LIKE :brand'' (sephora_select
     @ (if p then '' AND product_type = :product_type'' else [])
     @ (if b then '' AND brand_name LIKE :brand'' else [])
     @ '' ORDER BY brand_name ASC, product_name ASC LIMIT :limit OFFSET :offset'') = (if b then 1 else 0)"
  by (cases p; cases b) (simp_all add: sephora_select_def)

lemma sephora_params:
  "snd (sephora_products_query product_type brand limit offset) ''product_type'' =
     (if filter_present product_type then map_option SStr product_type else None)"
  "snd (sephora_products_query product_type brand limit offset) ''brand'' =
     (if filter_present brand then map_option (\<lambda>b. SStr (''%'' @ b @ ''%'')) brand else None)"
  "snd (sephora_products_query product_type brand limit offset) ''limit'' = Some (SInt limit)"
  "snd (sephora_products_query product_type brand limit offset) ''offset'' = Some (SInt offset)"
  "dom (snd (sephora_products_query product_type brand limit offset)) =
     {''limit'', ''offset''}
     \<union> (if filter_present product_type then {''product_type''} else {})
     \<union> (if filter_present brand then {''brand''} else {})"
  by (cases product_type; cases brand; simp add: sephora_query_snd; blast?)+

lemma skincare_query_fst:
  "fst (skincare_products_query product_type brand limit offset) =
     skincare_select
     @ (if filter_present product_type then '' AND product_type = :product_type'' else [])
     @ (if filter_present brand then '' AND brand LIKE :brand'' else [])
     @ '' ORDER BY brand ASC, product_name ASC LIMIT :limit OFFSET :offset''"
  by (cases product_type; cases brand) (simp_all add: skincare_products_query_def)

lemma skincare_query_snd:
  "snd (skincare_products_query product_type brand limit offset) =
     (((if filter_present product_type
        then Map.empty(''product_type'' := map_option SStr product_type) else Map.empty)
       ++ (if filter_present brand
        then Map.empty(''brand'' := map_option (\<lambda>b. SStr (''%'' @ b @ ''%'')) brand)
        else Map.empty))
      (''limit'' \<mapsto> SInt limit, ''offset'' \<mapsto> SInt offset))"
  by (cases product_type; cases brand) (simp_all add: skincare_products_query_def)

lemma skincare_count_where:
  "count_sub ''WHERE 1=1'' (skincare_select
     @ (if p then '' AND product_type = :product_type'' else [])
     @ (if b then '' AND brand LIKE :brand'' else [])
     @ '' ORDER BY brand ASC, product_name ASC LIMIT :limit OFFSET :offset'') = 1"
  by (cases p; cases b) (simp_all add: skincare_select_def)

lemma skincare_count_and:
  "count_sub '' AND '' (skincare_select
     @ (if p then '' AND product_type = :product_type'' else [])
     @ (if b then '' AND brand LIKE :brand'' else [])
     @ '' ORDER BY brand ASC, product_name ASC LIMIT :limit OFFSET :offset'') = (if p then 1 else 0) + (if b then 1 else 0)"
  by (cases p; cases b) (simp_all add: skincare_select_def)

lemma skincare_count_type:
  "count_sub '' AND product_type = :product_type'' (skincare_select
     @ (if p then '' AND product_type = :product_type'' else [])
     @ (if b then '' AND brand LIKE :brand'' else [])
     @ '' ORDER BY brand ASC, product_name ASC LIMIT :limit OFFSET :offset'') = (if p then 1 else 0)"
  by (cases p; cases b) (simp_all add: skincare_select_def)

lemma skincare_count_brand:
  "count_sub '' AND brand LIKE :brand'' (skincare_select
     @ (if p then '' AND product_type = :product_type'' else [])
     @ (if b then '' AND brand LIKE :brand'' else [])
     @ '' ORDER BY brand ASC, product_name ASC LIMIT :limit OFFSET :offset'') = (if b then 1 else 0)"
  by (cases p; cases b) (simp_all add: skincare_select_def)

lemma skincare_params:
  "snd (skincare_products_query product_type brand limit offset) ''product_type'' =
     (if filter_present product_type then map_option SStr product_type else None)"
  "snd (skincare_products_query product_type brand limit offset) ''brand'' =
     (if filter_present brand then map_option (\<lambda>b. SStr (''%'' @ b @ ''%'')) brand else None)"
  "snd (skincare_products_query product_type brand limit offset) ''limit'' = Some (SInt limit)"
  "snd (skincare_products_query product_type brand limit offset) ''offset'' = Some (SInt offset)"
  "dom (snd (skincare_products_query product_type brand limit offset)) =
     {''limit'', ''offset''}
     \<union> (if filter_present product_type then {''product_type''} else {})
     \<union> (if filter_present brand then {''brand''} else {})"
  by (cases product_type; cases brand; simp add: skincare_query_snd; blast?)+

text \<open>
  Claim C4. For every combination of the two optional filters, on both list endpoints: the
  statement has its one \<^verbatim>\<open>WHERE 1=1\<close>, and as many \<^verbatim>\<open>AND\<close> conditions as there are
  filters present: the equality on the type column exactly once when the type filter is
  present and not at all otherwise, the \<^verbatim>\<open>LIKE\<close> on the brand column exactly once when the
  brand filter is present and not at all otherwise. The parameter dict binds
  \<^verbatim>\<open>product_type\<close> to the filter's value and \<^verbatim>\<open>brand\<close> to the value between two percent
  signs, each only when its filter is present; an absent filter binds nothing, no
  wildcard either. A filter is present when the handler's own test \<^verbatim>\<open>if product_type:\<close>,
  \<^verbatim>\<open>if brand:\<close> holds.
\<close>

theorem filters_only_when_present:
  "(case sephora_products_query product_type brand limit offset of
      (query, params) \<Rightarrow>
        count_sub ''WHERE 1=1'' query = 1
      \<and> count_sub '' AND '' query =
          (if filter_present product_type then 1 else 0) + (if filter_present brand then 1 else 0)
      \<and> count_sub '' AND product_type = :product_type'' query =
          (if filter_present product_type then 1 else 0)
      \<and> count_sub '' AND brand_name LIKE :brand'' query = (if filter_present brand then 1 else 0)
      \<and> params ''product_type'' =
          (if filter_present product_type then map_option SStr product_type else None)
      \<and> params ''brand'' =
          (if filter_present brand then map_option (\<lambda>b. SStr (''%'' @ b @ ''%'')) brand else None)
      \<and> params ''limit'' = Some (SInt limit)
      \<and> params ''offset'' = Some (SInt offset)
      \<and> dom params =
          {''limit'', ''offset''}
          \<union> (if filter_present product_type then {''product_type''} else {})
          \<union> (if filter_present brand then {''brand''} else {}))
   \<and> (case skincare_products_query product_type brand limit offset of
      (query, params) \<Rightarrow>
        count_sub ''WHERE 1=1'' query = 1
      \<and> count_sub '' AND '' query =
          (if filter_present product_type then 1 else 0) + (if filter_present brand then 1 else 0)
      \<and> count_sub '' AND product_type = :product_type'' query =
          (if filter_present product_type then 1 else 0)
      \<and> count_sub '' AND brand LIKE :brand'' query = (if filter_present brand then 1 else 0)
      \<and> params ''product_type'' =
          (if filter_present product_type then map_option SStr product_type else None)
      \<and> params ''brand'' =
          (if filter_present brand then map_option (\<lambda>b. SStr (''%'' @ b @ ''%'')) brand else None)
      \<and> params ''limit'' = Some (SInt limit)
      \<and> params ''offset'' = Some (SInt offset)
      \<and> dom params =
          {''limit'', ''offset''}
          \<union> (if filter_present product_type then {''product_type''} else {})
          \<union> (if filter_present brand then {''brand''} else {}))"
  unfolding case_prod_beta
  apply (intro conjI)
  apply (simp_all only: sephora_query_fst skincare_query_fst sephora_count_where sephora_count_and
      sephora_count_type sephora_count_brand skincare_count_where skincare_count_and
      skincare_count_type skincare_count_brand sephora_params skincare_params)
  done

text \<open>
  Claim C10. An empty string for the type or the brand parameter builds the very statement
  and parameter dict that leaving the parameter out builds, and so the handler answers the
  same, whatever the database: the unfiltered page.
\<close>

theorem empty_filter_same_as_omitted:
  "sephora_products_query (Some []) brand limit offset = sephora_products_query None brand limit offset
   \<and> sephora_products_query product_type (Some []) limit offset
       = sephora_products_query product_type None limit offset
   \<and> skincare_products_query (Some []) brand limit offset
       = skincare_products_query None brand limit offset
   \<and> skincare_products_query product_type (Some []) limit offset
       = skincare_products_query product_type None limit offset
   \<and> get_sephora_products int_of execute (args(''type'' \<mapsto> [])) = get_sephora_products int_of execute (args(''type'' := None))
   \<and> get_sephora_products int_of execute (args(''brand'' \<mapsto> [])) = get_sephora_products int_of execute (args(''brand'' := None))
   \<and> get_skincare_products int_of execute (args(''type'' \<mapsto> [])) = get_skincare_products int_of execute (args(''type'' := None))
   \<and> get_skincare_products int_of execute (args(''brand'' \<mapsto> [])) = get_skincare_products int_of execute (args(''brand'' := None))"
proof -
  have q: "sephora_products_query (Some []) b lim off = sephora_products_query None b lim off"
    "sephora_products_query p (Some []) lim off = sephora_products_query p None lim off"
    "skincare_products_query (Some []) b lim off = skincare_products_query None b lim off"
    "skincare_products_query p (Some []) lim off = skincare_products_query p None lim off"
    for p b lim off
    by (simp_all add: sephora_products_query_def skincare_products_query_def)
  have i: "int_arg int_of (args(''type'' \<mapsto> [])) ''limit'' d = int_arg int_of (args(''type'' := None)) ''limit'' d"
    "int_arg int_of (args(''type'' \<mapsto> [])) ''offset'' d = int_arg int_of (args(''type'' := None)) ''offset'' d"
    "int_arg int_of (args(''brand'' \<mapsto> [])) ''limit'' d = int_arg int_of (args(''brand'' := None)) ''limit'' d"
    "int_arg int_of (args(''brand'' \<mapsto> [])) ''offset'' d = int_arg int_of (args(''brand'' := None)) ''offset'' d"
    for d
    by (simp_all add: int_arg_def)
  show ?thesis
    by (simp add: q i get_sephora_products_def get_skincare_products_def Let_def cong: sum.case_cong)
qed

section \<open>Pagination parameters: proofs\<close>

lemma py_int_abc: "py_int ''abc'' = None"
  by (simp add: py_int_def int_magnitude_def strip_def is_space_def is_digit_def)

text \<open>
  Claim C3 says a non-numeric \<^verbatim>\<open>limit\<close> or \<^verbatim>\<open>offset\<close> is answered with a 4xx client error.
  It is not: \<^verbatim>\<open>int("abc")\<close> raises ValueError inside the handler's \<^verbatim>\<open>try\<close>, and the only
  \<^verbatim>\<open>except\<close> clause answers every exception with 500.
\<close>

theorem bad_pagination_is_client_error_counterexample:
  "py_int ''abc'' = None
   \<and> get_sephora_products py_int empty_db [''limit'' \<mapsto> ''abc'']
       = (Error (Exception (ValueError ''abc'')), 500)
   \<and> \<not> client_error (get_sephora_products py_int empty_db [''limit'' \<mapsto> ''abc''])
   \<and> get_skincare_products py_int empty_db [''offset'' \<mapsto> ''abc'']
       = (Error (Exception (ValueError ''abc'')), 500)
   \<and> \<not> client_error (get_skincare_products py_int empty_db [''offset'' \<mapsto> ''abc''])"
  by (simp add: py_int_abc get_sephora_products_def get_skincare_products_def int_arg_def
      client_error_def)

text \<open>
  Claim C3, amended. On both list endpoints, a \<^verbatim>\<open>limit\<close> that \<^verbatim>\<open>int\<close> rejects, or an
  \<^verbatim>\<open>offset\<close> that it rejects after a \<^verbatim>\<open>limit\<close> that is absent or accepted, is answered 500
  with the ValueError's message in a JSON error body, whatever the database: no crash, but
  no 4xx either. With both parameters absent the statement is run with limit 50 and
  offset 0, and the success body reports 50 and 0. \<^verbatim>\<open>int\<close> is the interpreter's, whatever
  strings it accepts.
\<close>

theorem bad_pagination_is_server_error:
  "(args ''limit'' = Some s \<and> int_of s = None \<longrightarrow>
      get_sephora_products int_of execute args = (Error (Exception (ValueError s)), 500)
    \<and> get_skincare_products int_of execute args = (Error (Exception (ValueError s)), 500))
   \<and> ((args ''limit'' = None \<or> (\<exists>l n. args ''limit'' = Some l \<and> int_of l = Some n))
       \<and> args ''offset'' = Some s \<and> int_of s = None \<longrightarrow>
      get_sephora_products int_of execute args = (Error (Exception (ValueError s)), 500)
    \<and> get_skincare_products int_of execute args = (Error (Exception (ValueError s)), 500))
   \<and> (args ''limit'' = None \<and> args ''offset'' = None \<longrightarrow>
      get_sephora_products int_of execute args =
        (case execute (fst (sephora_products_query (args ''type'') (args ''brand'') 50 0))
                      (snd (sephora_products_query (args ''type'') (args ''brand'') 50 0)) of
           Inl e \<Rightarrow> (Error (Exception e), 500)
         | Inr rows \<Rightarrow> (DataPage rows (length rows) 50 0, 200))
    \<and> snd (sephora_products_query (args ''type'') (args ''brand'') 50 0) ''limit'' = Some (SInt 50)
    \<and> snd (sephora_products_query (args ''type'') (args ''brand'') 50 0) ''offset'' = Some (SInt 0)
    \<and> get_skincare_products int_of execute args =
        (case execute (fst (skincare_products_query (args ''type'') (args ''brand'') 50 0))
                      (snd (skincare_products_query (args ''type'') (args ''brand'') 50 0)) of
           Inl e \<Rightarrow> (Error (Exception e), 500)
         | Inr rows \<Rightarrow> (DataPage rows (length rows) 50 0, 200))
    \<and> snd (skincare_products_query (args ''type'') (args ''brand'') 50 0) ''limit'' = Some (SInt 50)
    \<and> snd (skincare_products_query (args ''type'') (args ''brand'') 50 0) ''offset'' = Some (SInt 0))"
  by (auto simp: get_sephora_products_def get_skincare_products_def int_arg_def Let_def
      case_prod_beta sephora_params skincare_params)

theorem bad_pagination_is_server_error_witness:
  "[''limit'' \<mapsto> ''abc''] ''limit'' = Some ''abc'' \<and> py_int ''abc'' = None
   \<and> get_sephora_products py_int empty_db [''limit'' \<mapsto> ''abc'']
       = (Error (Exception (ValueError ''abc'')), 500)
   \<and> ([''offset'' \<mapsto> ''abc''] :: string \<rightharpoonup> string) ''limit'' = None
   \<and> [''offset'' \<mapsto> ''abc''] ''offset'' = Some ''abc''
   \<and> get_skincare_products py_int empty_db [''offset'' \<mapsto> ''abc'']
       = (Error (Exception (ValueError ''abc'')), 500)
   \<and> get_sephora_products py_int empty_db Map.empty = (DataPage [] 0 50 0, 200)"
  using py_int_abc
    bad_pagination_is_server_error [of "[''limit'' \<mapsto> ''abc'']" "''abc''" py_int empty_db]
    bad_pagination_is_server_error [of "[''offset'' \<mapsto> ''abc'']" "''abc''" py_int empty_db]
    bad_pagination_is_server_error [of Map.empty "''abc''" py_int empty_db]
  by (simp add: empty_db_def)

section \<open>The remote API fetcher and the save routine: proofs\<close>

lemma append_list_objs:
  "list_all is_obj products \<Longrightarrow>
   append_list products all_products =
     (all_products @ concat (map (\<lambda>p. case p of JObj product \<Rightarrow> [normalize product] | _ \<Rightarrow> []) products),
      Normal)"
  by (induction products all_products rule: append_list.induct) auto

lemma append_list_not_objs:
  "\<not> list_all is_obj products \<Longrightarrow>
   \<exists>all'. append_list products all_products = (all', Raised {CAttributeError})"
  by (induction products all_products rule: append_list.induct) auto

lemma try_page_stops:
  "spec_stops outcome \<Longrightarrow>
   (\<exists>e. try_page outcome all_products = (all_products, Raised e) \<and> except_clause e = Abort)
   \<or> try_page outcome all_products = (all_products, Break)"
proof (cases outcome)
  case (Raises e)
  assume "spec_stops outcome"
  with Raises show ?thesis
    by (simp add: try_page_def except_clause_def)
next
  case (Body d)
  assume "spec_stops outcome"
  with Body show ?thesis
    by (cases d) (simp_all add: try_page_def)
qed

lemma try_page_skipped:
  "spec_skipped outcome \<Longrightarrow>
   \<exists>e. try_page outcome all_products = (all_products, Raised e) \<and> except_clause e = Continue"
  by (cases outcome) (auto simp: try_page_def except_clause_def)

lemma try_page_contributes:
  "spec_contributes outcome \<Longrightarrow>
   try_page outcome all_products = (all_products @ spec_records outcome, Normal)"
proof (cases outcome)
  case (Body d)
  assume a: "spec_contributes outcome"
  show ?thesis
  proof (cases d)
    case (JObj kvs)
    with Body a show ?thesis
      by (cases "json_get kvs ''products'' (JArr [])")
         (auto simp: try_page_def Let_def append_list_objs)
  qed (use Body a in auto)
qed auto

lemma try_page_raises:
  "spec_raises outcome = Some x \<Longrightarrow>
   \<exists>all'. try_page outcome all_products = (all', Raised x) \<and> except_clause x = Propagate"
proof (cases outcome)
  case (Raises e)
  assume "spec_raises outcome = Some x"
  with Raises show ?thesis
    by (auto simp: try_page_def except_clause_def split: if_splits)
next
  case (Body d)
  assume a: "spec_raises outcome = Some x"
  show ?thesis
  proof (cases d)
    case (JObj kvs)
    show ?thesis
    proof (cases "json_get kvs ''products'' (JArr [])")
      case (JArr products)
      with Body JObj a have n: "\<not> list_all is_obj products" and x: "x = {CAttributeError}"
        by (auto split: if_splits)
      then have "products \<noteq> []" by auto
      with append_list_not_objs [OF n, of all_products] Body JObj JArr x show ?thesis
        by (auto simp: try_page_def Let_def except_clause_def)
    qed (use Body JObj a in \<open>auto simp: try_page_def Let_def except_clause_def split: if_splits\<close>)
  qed (use Body a in \<open>auto simp: try_page_def except_clause_def\<close>)
qed

lemma not_stops_not_skipped_records:
  "spec_skipped outcome \<Longrightarrow> spec_records outcome = [] \<and> \<not> spec_stops outcome"
  by (cases outcome) auto

lemma contributes_not_stops: "spec_contributes outcome \<Longrightarrow> \<not> spec_stops outcome"
proof (cases outcome)
  case (Body d)
  assume "spec_contributes outcome"
  with Body show ?thesis
    by (cases d) (auto split: json.splits)
qed auto

lemma fetch_page_stops:
  assumes "spec_stops (request page)"
  shows "fetch_pages request (page # pages) all_products = Inr all_products"
  using try_page_stops [OF assms, of all_products] by auto

lemma fetch_page_goes_on:
  assumes "spec_regular (request page)" and "\<not> spec_stops (request page)"
  shows "fetch_pages request (page # pages) all_products
       = fetch_pages request pages (all_products @ spec_records (request page))"
proof -
  from assms consider "spec_skipped (request page)" | "spec_contributes (request page)"
    by (auto simp: spec_regular_def)
  then show ?thesis
  proof cases
    case 1
    with try_page_skipped [OF 1, of all_products] not_stops_not_skipped_records [OF 1]
    show ?thesis by auto
  next
    case 2
    then show ?thesis by (simp add: try_page_contributes)
  qed
qed

lemma fetch_page_raises:
  assumes "spec_raises (request page) = Some x"
  shows "fetch_pages request (page # pages) all_products = Inl x"
  using try_page_raises [OF assms, of all_products] by auto

lemma fetch_pages_regular:
  "\<forall>page \<in> set (visited request pages). spec_regular (request page) \<Longrightarrow>
   fetch_pages request pages all_products =
     Inr (all_products
          @ concat (map (\<lambda>page. spec_records (request page))
                        (takeWhile (\<lambda>page. \<not> spec_stops (request page)) pages)))"
proof (induction pages arbitrary: all_products)
  case Nil
  then show ?case by simp
next
  case (Cons page pages)
  show ?case
  proof (cases "spec_stops (request page)")
    case True
    then show ?thesis by (simp add: fetch_page_stops del: fetch_pages.simps)
  next
    case False
    with Cons.prems have reg: "spec_regular (request page)"
      and rest: "\<forall>p \<in> set (visited request pages). spec_regular (request p)"
      by simp_all
    show ?thesis
      using False
      by (simp add: fetch_page_goes_on [of request page, OF reg False] Cons.IH [OF rest] del: fetch_pages.simps)
  qed
qed

lemma fetch_pages_raises:
  "\<forall>q \<in> set before. spec_regular (request q) \<and> \<not> spec_stops (request q) \<Longrightarrow>
   spec_raises (request p) = Some x \<Longrightarrow>
   fetch_pages request (before @ p # rest) all_products = Inl x"
proof (induction before arbitrary: all_products)
  case Nil
  then show ?case by (simp add: fetch_page_raises del: fetch_pages.simps)
next
  case (Cons q before)
  then have "spec_regular (request q)" "\<not> spec_stops (request q)"
    by simp_all
  then have "fetch_pages request ((q # before) @ p # rest) all_products
      = fetch_pages request (before @ p # rest) (all_products @ spec_records (request q))"
    using fetch_page_goes_on by (simp del: fetch_pages.simps)
  with Cons show ?case by (simp del: fetch_pages.simps)
qed

lemma upto_split_at:
  "1 \<le> p \<Longrightarrow> p \<le> m \<Longrightarrow> [1..m] = [1..p - 1] @ p # [p + 1..m]"
  using upto_split2 [of 1 p m] upto_rec1 [of p m] upto_rec2 [of 1 p] by simp

text \<open>
  Claim C7, amended. The fetcher visits pages 1 to \<open>max_pages\<close> in order. When every page
  it reaches is a body as the remote API sends it, a timeout, an HTTP error, a ValueError
  or KeyError that is not a RequestException, or a connection failure, it returns the
  table of the records of every page before the first stopping page: a page without
  products or a connection failure ends the pagination; a timeout, an HTTP error and such
  a ValueError or KeyError contribute nothing, and the next page is fetched. When instead,
  before any stopping page, a page brings an exception of none of the classes the
  \<^verbatim>\<open>except\<close> clauses name, or a body that is not an object whose products are a list of
  objects, the exception leaves the function (the caller catches it) and nothing is
  returned. An exception that is both a RequestException and a ValueError is in no case of
  this statement.
\<close>

theorem api_fetcher_returns_or_raises:
  "((\<forall>page \<in> set (visited request [1..max_pages]). spec_regular (request page)) \<longrightarrow>
      extract_from_api cells request max_pages =
        Inr (DataFrame cells (concat (map (\<lambda>page. spec_records (request page))
               (takeWhile (\<lambda>page. \<not> spec_stops (request page)) [1..max_pages])))))
   \<and> (1 \<le> p \<and> p \<le> max_pages
       \<and> (\<forall>q \<in> set [1..p - 1]. spec_regular (request q) \<and> \<not> spec_stops (request q))
       \<and> spec_raises (request p) = Some x \<longrightarrow>
      extract_from_api cells request max_pages = Inl x)"
proof (intro conjI impI)
  assume "\<forall>page \<in> set (visited request [1..max_pages]). spec_regular (request page)"
  then show "extract_from_api cells request max_pages =
        Inr (DataFrame cells (concat (map (\<lambda>page. spec_records (request page))
               (takeWhile (\<lambda>page. \<not> spec_stops (request page)) [1..max_pages]))))"
    by (simp add: extract_from_api_def fetch_pages_regular)
next
  assume a: "1 \<le> p \<and> p \<le> max_pages
       \<and> (\<forall>q \<in> set [1..p - 1]. spec_regular (request q) \<and> \<not> spec_stops (request q))
       \<and> spec_raises (request p) = Some x"
  then have s: "[1..max_pages] = [1..p - 1] @ p # [p + 1..max_pages]"
    by (intro upto_split_at) simp_all
  from a have "fetch_pages request ([1..p - 1] @ p # [p + 1..max_pages]) [] = Inl x"
    by (intro fetch_pages_raises) simp_all
  then show "extract_from_api cells request max_pages = Inl x"
    by (simp add: extract_from_api_def s [symmetric])
qed

lemma upto_1_7: "[1..7] = [1, 2, 3, 4, 5, 6, 7::int]"
  by (simp add: upto.simps)

lemma upto_1_3: "[1..3] = [1, 2, 3::int]"
  by (simp add: upto.simps)

text \<open>
  Claim C7 says the fetcher returns in all cases rather than raising, and aborts only on a
  fatal connection failure. A second page whose body is a JSON list makes \<^verbatim>\<open>data.get\<close>
  raise AttributeError, which no clause catches: the function raises. And a second page
  whose body the requests library cannot parse raises its JSONDecodeError, a
  RequestException as well as a ValueError: the clause for RequestException comes first
  and breaks the loop, so the third page is never fetched.
\<close>

theorem fetcher_never_raises_counterexample:
  "extract_from_api no_cells request_list 3 = Inl {CAttributeError}
   \<and> extract_from_api no_cells request_garbled 3
       = Inr (DataFrame no_cells [normalize [(''product_name'', JStr ''soap'')]])
   \<and> CValueError \<in> {CRequestException, CValueError}"
  by (simp add: extract_from_api_def upto_1_3 request_list_def request_garbled_def soap_page_def
      try_page_def json_get_def except_clause_def)

theorem api_fetcher_returns_or_raises_witness:
  "visited request0 [1..7] = [1, 2, 3, 4, 5, 6]
   \<and> spec_contributes (request0 1) \<and> spec_skipped (request0 2) \<and> spec_skipped (request0 3)
   \<and> spec_skipped (request0 4) \<and> spec_contributes (request0 5) \<and> spec_stops (request0 6)
   \<and> extract_from_api no_cells request0 7 =
       Inr (DataFrame no_cells [normalize [(''product_name'', JStr ''soap'')],
                                normalize [(''product_name'', JStr ''soap'')]])
   \<and> visited request_down [1..3] = [1, 2]
   \<and> spec_contributes (request_down 1) \<and> spec_stops (request_down 2)
   \<and> extract_from_api no_cells request_down 3 =
       Inr (DataFrame no_cells [normalize [(''product_name'', JStr ''soap'')]])
   \<and> spec_contributes (request_list 1) \<and> spec_raises (request_list 2) = Some {CAttributeError}
   \<and> extract_from_api no_cells request_list 3 = Inl {CAttributeError}"
proof -
  have v: "visited request0 [1..7] = [1, 2, 3, 4, 5, 6]"
    by (simp add: upto_1_7 request0_def soap_page_def json_get_def)
  have r: "spec_contributes (request0 1)" "spec_skipped (request0 2)" "spec_skipped (request0 3)"
    "spec_skipped (request0 4)" "spec_contributes (request0 5)" "spec_stops (request0 6)"
    by (simp_all add: request0_def soap_page_def json_get_def)
  have h: "\<forall>page \<in> set (visited request0 [1..7]). spec_regular (request0 page)"
    using r by (simp add: v spec_regular_def)
  have vd: "visited request_down [1..3] = [1, 2]"
    by (simp add: upto_1_3 request_down_def soap_page_def json_get_def)
  have rd: "spec_contributes (request_down 1)" "spec_stops (request_down 2)"
    by (simp_all add: request_down_def soap_page_def json_get_def)
  have hd: "\<forall>page \<in> set (visited request_down [1..3]). spec_regular (request_down page)"
    using rd by (simp add: vd spec_regular_def)
  have rl: "spec_contributes (request_list 1)" "spec_raises (request_list 2) = Some {CAttributeError}"
    by (simp_all add: request_list_def soap_page_def json_get_def)
  have u: "[1..2 - 1] = [1::int]"
    by (simp add: upto.simps)
  have hl: "(1::int) \<le> 2 \<and> (2::int) \<le> 3
       \<and> (\<forall>q \<in> set [1..2 - 1]. spec_regular (request_list q) \<and> \<not> spec_stops (request_list q))
       \<and> spec_raises (request_list 2) = Some {CAttributeError}"
    using rl by (simp add: u spec_regular_def contributes_not_stops)
  note a = api_fetcher_returns_or_raises [where cells = no_cells, THEN conjunct1, THEN mp]
  note b = api_fetcher_returns_or_raises [where cells = no_cells, THEN conjunct2, THEN mp]
  show ?thesis
    using v r vd rd rl a [OF h] a [OF hd] b [OF hl]
    by (simp add: upto_1_7 upto_1_3 request0_def request_down_def soap_page_def json_get_def)
qed

text \<open>
  Claim C8. \<^verbatim>\<open>save_raw\<close> writes a file exactly when the table is not empty. An empty table
  gives one logged warning and nothing else; a non-empty one is written to
  \<open>RAW_DIR/name_timestamp.csv\<close> (for a name that is not an absolute path, as the labels of
  the script are) and the write is logged. The table built from the fetcher's records is
  empty exactly when there is no record. Failures of the file system are not modelled.
\<close>

theorem save_raw_iff_nonempty:
  "save_raw RAW_DIR timestamp name df =
     (if df_empty df then [Warning (EmptyNotSaved name)]
      else [ToCsv (path_join RAW_DIR (name @ ''_'' @ timestamp @ ''.csv'')) df,
            Info (Saved (path_join RAW_DIR (name @ ''_'' @ timestamp @ ''.csv''))
                   (df_len df))])
   \<and> (list_ex is_write (save_raw RAW_DIR timestamp name df) \<longleftrightarrow> \<not> df_empty df)
   \<and> (\<not> startswith name ''/'' \<longrightarrow>
        path_join RAW_DIR (name @ ''_'' @ timestamp @ ''.csv'')
          = RAW_DIR @ ''/'' @ name @ ''_'' @ timestamp @ ''.csv'')
   \<and> (df_empty (DataFrame cells (map normalize products)) \<longleftrightarrow> products = [])"
proof (intro conjI impI)
  assume "\<not> startswith name ''/''"
  then show "path_join RAW_DIR (name @ ''_'' @ timestamp @ ''.csv'')
          = RAW_DIR @ ''/'' @ name @ ''_'' @ timestamp @ ''.csv''"
    by (cases name) (auto simp: path_join_def)
next
  show "df_empty (DataFrame cells (map normalize products)) \<longleftrightarrow> products = []"
    by (cases products) (simp_all add: df_empty_def DataFrame_def normalize_def)
qed (simp_all add: save_raw_def Let_def)

theorem save_raw_iff_nonempty_witness:
  "\<not> startswith ''api_open_beauty_facts'' ''/''
   \<and> save_raw ''data/raw'' ''20240101_120000'' ''api_open_beauty_facts''
        (DataFrame no_cells [normalize [(''product_name'', JStr ''soap'')]])
      = [ToCsv ''data/raw/api_open_beauty_facts_20240101_120000.csv''
           (DataFrame no_cells [normalize [(''product_name'', JStr ''soap'')]]),
         Info (Saved ''data/raw/api_open_beauty_facts_20240101_120000.csv'' 1)]
   \<and> save_raw ''data/raw'' ''20240101_120000'' ''api_open_beauty_facts'' (DataFrame no_cells [])
      = [Warning (EmptyNotSaved ''api_open_beauty_facts'')]"
proof -
  have n: "\<not> startswith ''api_open_beauty_facts'' ''/''" by simp
  have e: "\<not> df_empty (DataFrame no_cells [normalize [(''product_name'', JStr ''soap'')]])"
    "df_empty (DataFrame no_cells [])"
    by (simp_all add: df_empty_def DataFrame_def normalize_def)
  note th = save_raw_iff_nonempty [where RAW_DIR = "''data/raw''" and timestamp = "''20240101_120000''"
      and name = "''api_open_beauty_facts''"]
  show ?thesis
    using n e th [where df = "DataFrame no_cells [normalize [(''product_name'', JStr ''soap'')]]",
        THEN conjunct1]
      th [where df = "DataFrame no_cells []", THEN conjunct1]
      th [where df = "DataFrame no_cells []", THEN conjunct2, THEN conjunct2, THEN conjunct1, THEN mp, OF n]
    by (simp add: DataFrame_def)
qed

section \<open>Ordering and pagination: proofs\<close>
















section \<open>The comparison statement: proofs\<close>







end
